theory Spec2Isabelle
  imports Main "HOL-Library.Word"
begin

section \<open>Go values shared by both packages\<close>

text \<open>
  A Go \<^verbatim>\<open>error\<close> is an interface value: \<^verbatim>\<open>nil\<close> or an object with an \<^verbatim>\<open>Error()\<close> message.
  \<^verbatim>\<open>errors.New(s)\<close> builds a leaf error with message \<open>s\<close>; \<^verbatim>\<open>fmt.Errorf\<close> with one
  \<^verbatim>\<open>%w\<close> verb builds a wrapper that stores the formatted message and the wrapped error,
  which \<^verbatim>\<open>Unwrap()\<close> gives back. A possibly-nil error is a \<open>go_error option\<close>.
\<close>

datatype go_error = errorString string | wrapError string go_error

fun Error :: "go_error \<Rightarrow> string" where
  "Error (errorString s) = s"
| "Error (wrapError msg err) = msg"

fun Unwrap :: "go_error \<Rightarrow> go_error option" where
  "Unwrap (errorString s) = None"
| "Unwrap (wrapError msg err) = Some err"

definition errors_New :: "string \<Rightarrow> go_error" where
  "errors_New s = errorString s"

text \<open>\<^verbatim>\<open>fmt.Errorf(prefix + "%w", err)\<close>: the format string of every call in the sources is
  a constant prefix followed by \<^verbatim>\<open>%w\<close>.\<close>

definition Errorf_w :: "string \<Rightarrow> go_error \<Rightarrow> go_error" where
  "Errorf_w prefix err = wrapError (prefix @ Error err) err"

text \<open>A run-time panic ends the call; it is the \<open>Inl\<close> branch of a result.\<close>

datatype panic = NilPointerDereference | TypeAssertionFailed | IndexOutOfRange

type_synonym byte = "8 word"

section \<open>Package configoauth2\<close>

definition errNoClientIDProvided :: go_error where
  "errNoClientIDProvided =
     errors_New ''no ClientID provided in OAuth Client Credentials configuration''"

definition errNoTokenURLProvided :: go_error where
  "errNoTokenURLProvided =
     errors_New ''no TokenURL provided in OAuth Client Credentials configuration''"

definition errNoClientSecretProvided :: go_error where
  "errNoClientSecretProvided =
     errors_New ''no ClientSecret provided in OAuth Client Credentials configuration''"

record OAuth2ClientCredentials =
  ClientID :: string
  ClientSecret :: string
  TokenURL :: string
  Scopes :: "string list"

text \<open>
  \<^verbatim>\<open>clientcredentials.Config\<close> and \<^verbatim>\<open>oauth2.Transport\<close> belong to an external library.
  The configuration is the struct literal the source fills in; the token source that
  \<^verbatim>\<open>config.TokenSource(context.Background())\<close> returns is represented by the
  configuration it was made from.
\<close>

record clientcredentials_Config =
  cfg_ClientID :: string
  cfg_ClientSecret :: string
  cfg_TokenURL :: string
  cfg_Scopes :: "string list"

datatype TokenSource = TokenSource_of clientcredentials_Config

record 'rt oauth2_Transport =
  Source :: TokenSource
  Base :: 'rt

text \<open>The returned pair is Go's \<^verbatim>\<open>(http.RoundTripper, error)\<close>; \<open>None\<close> is \<^verbatim>\<open>nil\<close>.\<close>

definition RoundTripper ::
  "OAuth2ClientCredentials \<Rightarrow> 'rt \<Rightarrow> 'rt oauth2_Transport option \<times> go_error option" where
  "RoundTripper c base =
     (if ClientID c = '''' then (None, Some errNoClientIDProvided)
      else if ClientSecret c = '''' then (None, Some errNoClientSecretProvided)
      else if TokenURL c = '''' then (None, Some errNoTokenURLProvided)
      else
        (let config = \<lparr>cfg_ClientID = ClientID c, cfg_ClientSecret = ClientSecret c,
                       cfg_TokenURL = TokenURL c, cfg_Scopes = Scopes c\<rparr>
         in (Some \<lparr>Source = TokenSource_of config, Base = base\<rparr>, None)))"

section \<open>Package pdata: the metric data type\<close>

text \<open>\<^verbatim>\<open>type MetricDataType int32\<close>, with the eight constants numbered by \<^verbatim>\<open>iota\<close>.\<close>

type_synonym MetricDataType = "32 word"

definition MetricDataTypeNone :: MetricDataType where "MetricDataTypeNone = 0"
definition MetricDataTypeIntGauge :: MetricDataType where "MetricDataTypeIntGauge = 1"
definition MetricDataTypeDoubleGauge :: MetricDataType where "MetricDataTypeDoubleGauge = 2"
definition MetricDataTypeIntSum :: MetricDataType where "MetricDataTypeIntSum = 3"
definition MetricDataTypeDoubleSum :: MetricDataType where "MetricDataTypeDoubleSum = 4"
definition MetricDataTypeIntHistogram :: MetricDataType where "MetricDataTypeIntHistogram = 5"
definition MetricDataTypeHistogram :: MetricDataType where "MetricDataTypeHistogram = 6"
definition MetricDataTypeSummary :: MetricDataType where "MetricDataTypeSummary = 7"

lemmas MetricDataType_defs =
  MetricDataTypeNone_def MetricDataTypeIntGauge_def MetricDataTypeDoubleGauge_def
  MetricDataTypeIntSum_def MetricDataTypeDoubleSum_def MetricDataTypeIntHistogram_def
  MetricDataTypeHistogram_def MetricDataTypeSummary_def

definition MetricDataType_String :: "MetricDataType \<Rightarrow> string" where
  "MetricDataType_String mdt =
     (if mdt = MetricDataTypeNone then ''None''
      else if mdt = MetricDataTypeIntGauge then ''IntGauge''
      else if mdt = MetricDataTypeDoubleGauge then ''DoubleGauge''
      else if mdt = MetricDataTypeIntSum then ''IntSum''
      else if mdt = MetricDataTypeDoubleSum then ''DoubleSum''
      else if mdt = MetricDataTypeIntHistogram then ''IntHistogram''
      else if mdt = MetricDataTypeHistogram then ''Histogram''
      else if mdt = MetricDataTypeSummary then ''Summary''
      else '''')"

section \<open>Package pdata: the record tree\<close>

text \<open>
  Modelled from the spec: the protobuf structs of packages \<^verbatim>\<open>otlpmetrics\<close> and
  \<^verbatim>\<open>otlpcollectormetrics\<close> are generated code and missing. By the specification's data
  model a request holds an ordered sequence of resource records, a resource record an
  ordered sequence of instrumentation-library records, and such a record an ordered
  sequence of metrics; a metric has a name, a description, a unit and at most one variant;
  the sum and histogram variants carry an aggregation temporality next to their points.
  Fields that none of the functions below reads or writes (resource attributes, library
  identity) are left out, and the elements of a sequence are records, not nil pointers.
  A data point is opaque here: it is the type parameter \<open>'p\<close>.

  Objects that the functions below only read, or update in place through the one pointer
  they hold, are passed by value. The storage of a metric's variant is allocated by
  \<^verbatim>\<open>SetDataType\<close> and \<^verbatim>\<open>copyData\<close>, so it lives in an explicit store: a list of cells,
  an address being an index, and allocation appending a cell. A variant wrapper such as
  \<^verbatim>\<open>&Metric_IntGauge{IntGauge: p}\<close> is the constructor applied to the pointer \<open>p\<close>, which
  may be nil; the wrapper itself is never a nil pointer.
\<close>

type_synonym addr = nat

type_synonym AggregationTemporality = "32 word"

datatype 'p otlp_message =
    otlp_IntGauge (DataPoints: "'p list")
  | otlp_DoubleGauge (DataPoints: "'p list")
  | otlp_IntSum (DataPoints: "'p list") (AggregationTemporality: AggregationTemporality)
  | otlp_DoubleSum (DataPoints: "'p list") (AggregationTemporality: AggregationTemporality)
  | otlp_IntHistogram (DataPoints: "'p list") (AggregationTemporality: AggregationTemporality)
  | otlp_DoubleHistogram (DataPoints: "'p list") (AggregationTemporality: AggregationTemporality)
  | otlp_DoubleSummary (DataPoints: "'p list")

type_synonym 'p store = "'p otlp_message list"

definition store_new :: "'p store \<Rightarrow> 'p otlp_message \<Rightarrow> addr \<times> 'p store" where
  "store_new h v = (length h, h @ [v])"

text \<open>
  A pointer to a message is \<open>None\<close>, the nil pointer, or \<open>Some a\<close> for an address \<open>a\<close>.
  Reading through nil panics. A non-nil pointer of a Go program always refers to a live
  object, so a state of the model in which \<open>Some a\<close> occurs with \<open>a\<close> outside the store
  corresponds to no state of the program; the read is given the outcome of the nil read
  there, and the statements below exclude such states by hypothesis.
\<close>

definition store_load :: "'p store \<Rightarrow> addr option \<Rightarrow> panic + 'p otlp_message" where
  "store_load h ptr =
     (case ptr of
        None \<Rightarrow> Inl NilPointerDereference
      | Some a \<Rightarrow> if a < length h then Inr (h ! a) else Inl NilPointerDereference)"

datatype isMetric_Data =
    Metric_IntGauge "addr option"
  | Metric_DoubleGauge "addr option"
  | Metric_IntSum "addr option"
  | Metric_DoubleSum "addr option"
  | Metric_IntHistogram "addr option"
  | Metric_DoubleHistogram "addr option"
  | Metric_DoubleSummary "addr option"

record otlp_Metric =
  Name :: string
  Description :: string
  Unit :: string
  Data :: "isMetric_Data option"

record otlp_InstrumentationLibraryMetrics =
  ilm_Metrics :: "otlp_Metric list"

record otlp_ResourceMetrics =
  rm_InstrumentationLibraryMetrics :: "otlp_InstrumentationLibraryMetrics list"

record ExportMetricsServiceRequest =
  ResourceMetrics :: "otlp_ResourceMetrics list"

text \<open>\<^verbatim>\<open>type Metrics struct { orig *ExportMetricsServiceRequest }\<close>; \<open>None\<close> is the nil
  pointer of the zero value \<^verbatim>\<open>Metrics{}\<close>.\<close>

datatype Metrics = Metrics (orig: "ExportMetricsServiceRequest option")

text \<open>\<^verbatim>\<open>type Metric struct { orig *otlpmetrics.Metric }\<close>, generated as well; the source
  documents that a zero-initialized \<^verbatim>\<open>Metric\<close> makes its methods panic.\<close>

datatype Metric = Metric (m_orig: "otlp_Metric option")

definition NewMetrics :: Metrics where
  "NewMetrics = Metrics (Some \<lparr>ResourceMetrics = []\<rparr>)"

subsection \<open>Slice views\<close>

text \<open>
  Modelled from the spec: the generated slice views (\<^verbatim>\<open>ResourceMetricsSlice\<close>,
  \<^verbatim>\<open>InstrumentationLibraryMetricsSlice\<close>, \<^verbatim>\<open>MetricSlice\<close> and the data-point slices) are
  missing. \<^verbatim>\<open>Len()\<close> is the current element count; \<^verbatim>\<open>At(i)\<close> is a bounds-checked access
  whose out-of-range use is fatal.
\<close>

definition Len :: "'a list \<Rightarrow> nat" where
  "Len es = length es"

definition At :: "'a list \<Rightarrow> nat \<Rightarrow> panic + 'a" where
  "At es i = (if i < length es then Inr (es ! i) else Inl IndexOutOfRange)"

text \<open>\<^verbatim>\<open>md.ResourceMetrics()\<close> takes the address of a field of \<^verbatim>\<open>md.orig\<close>.\<close>

definition Metrics_ResourceMetrics :: "Metrics \<Rightarrow> panic + otlp_ResourceMetrics list" where
  "Metrics_ResourceMetrics md =
     (case orig md of
        None \<Rightarrow> Inl NilPointerDereference
      | Some req \<Rightarrow> Inr (ResourceMetrics req))"

text \<open>
  Modelled from the spec: the generated views of the seven variants are missing. A view
  made by \<^verbatim>\<open>newIntGauge(p)\<close> and its siblings is the pointer \<open>p\<close> it wraps;
  \<^verbatim>\<open>view.DataPoints().Len()\<close> reads the element count of the point collection behind it.
\<close>

definition DataPoints_Len :: "'p store \<Rightarrow> addr option \<Rightarrow> panic + nat" where
  "DataPoints_Len h view =
     (case store_load h view of
        Inl p \<Rightarrow> Inl p
      | Inr msg \<Rightarrow> Inr (Len (DataPoints msg)))"

text \<open>
  Modelled from the spec: the generated \<^verbatim>\<open>CopyTo\<close> methods of the variant views are
  missing. \<^verbatim>\<open>src.CopyTo(dst)\<close> deep-copies every field and nested element of the source
  into the destination, overwriting the destination's prior contents.
\<close>

definition CopyTo :: "'p store \<Rightarrow> addr option \<Rightarrow> addr option \<Rightarrow> panic + 'p store" where
  "CopyTo h src dst =
     (case store_load h src of
        Inl p \<Rightarrow> Inl p
      | Inr msg \<Rightarrow>
          (case dst of
             None \<Rightarrow> Inl NilPointerDereference
           | Some d \<Rightarrow> if d < length h then Inr (h[d := msg]) else Inl NilPointerDereference))"

section \<open>Package pdata: the metric variant\<close>

definition DataType :: "Metric \<Rightarrow> panic + MetricDataType" where
  "DataType ms =
     (case m_orig ms of
        None \<Rightarrow> Inl NilPointerDereference
      | Some m \<Rightarrow>
          Inr (case Data m of
                 Some (Metric_IntGauge _) \<Rightarrow> MetricDataTypeIntGauge
               | Some (Metric_DoubleGauge _) \<Rightarrow> MetricDataTypeDoubleGauge
               | Some (Metric_IntSum _) \<Rightarrow> MetricDataTypeIntSum
               | Some (Metric_DoubleSum _) \<Rightarrow> MetricDataTypeDoubleSum
               | Some (Metric_IntHistogram _) \<Rightarrow> MetricDataTypeIntHistogram
               | Some (Metric_DoubleHistogram _) \<Rightarrow> MetricDataTypeHistogram
               | Some (Metric_DoubleSummary _) \<Rightarrow> MetricDataTypeSummary
               | None \<Rightarrow> MetricDataTypeNone))"

text \<open>The assignment \<^verbatim>\<open>ms.orig.Data = d\<close>.\<close>

definition assign_Data :: "otlp_Metric option \<Rightarrow> isMetric_Data \<Rightarrow> panic + otlp_Metric option" where
  "assign_Data ptr d =
     (case ptr of
        None \<Rightarrow> Inl NilPointerDereference
      | Some m \<Rightarrow> Inr (Some (m\<lparr>Data := Some d\<rparr>)))"

text \<open>
  \<^verbatim>\<open>SetDataType\<close> changes the store (two nested allocations, of which the message is the
  cell) and the metric record behind \<^verbatim>\<open>ms.orig\<close>; both are returned. The right-hand side
  of each assignment is evaluated before the store through \<^verbatim>\<open>ms.orig\<close>.
\<close>

definition SetDataType ::
  "'p store \<Rightarrow> Metric \<Rightarrow> MetricDataType \<Rightarrow> panic + ('p store \<times> Metric)" where
  "SetDataType h ms ty =
     (if ty = MetricDataTypeIntGauge then
        (let (a, h') = store_new h (otlp_IntGauge []) in
         case assign_Data (m_orig ms) (Metric_IntGauge (Some a)) of
           Inl p \<Rightarrow> Inl p | Inr ptr \<Rightarrow> Inr (h', Metric ptr))
      else if ty = MetricDataTypeDoubleGauge then
        (let (a, h') = store_new h (otlp_DoubleGauge []) in
         case assign_Data (m_orig ms) (Metric_DoubleGauge (Some a)) of
           Inl p \<Rightarrow> Inl p | Inr ptr \<Rightarrow> Inr (h', Metric ptr))
      else if ty = MetricDataTypeIntSum then
        (let (a, h') = store_new h (otlp_IntSum [] 0) in
         case assign_Data (m_orig ms) (Metric_IntSum (Some a)) of
           Inl p \<Rightarrow> Inl p | Inr ptr \<Rightarrow> Inr (h', Metric ptr))
      else if ty = MetricDataTypeDoubleSum then
        (let (a, h') = store_new h (otlp_DoubleSum [] 0) in
         case assign_Data (m_orig ms) (Metric_DoubleSum (Some a)) of
           Inl p \<Rightarrow> Inl p | Inr ptr \<Rightarrow> Inr (h', Metric ptr))
      else if ty = MetricDataTypeIntHistogram then
        (let (a, h') = store_new h (otlp_IntHistogram [] 0) in
         case assign_Data (m_orig ms) (Metric_IntHistogram (Some a)) of
           Inl p \<Rightarrow> Inl p | Inr ptr \<Rightarrow> Inr (h', Metric ptr))
      else if ty = MetricDataTypeHistogram then
        (let (a, h') = store_new h (otlp_DoubleHistogram [] 0) in
         case assign_Data (m_orig ms) (Metric_DoubleHistogram (Some a)) of
           Inl p \<Rightarrow> Inl p | Inr ptr \<Rightarrow> Inr (h', Metric ptr))
      else if ty = MetricDataTypeSummary then
        (let (a, h') = store_new h (otlp_DoubleSummary []) in
         case assign_Data (m_orig ms) (Metric_DoubleSummary (Some a)) of
           Inl p \<Rightarrow> Inl p | Inr ptr \<Rightarrow> Inr (h', Metric ptr))
      else Inr (h, ms))"

text \<open>
  The seven accessors. Each is a type assertion on \<^verbatim>\<open>ms.orig.Data\<close>, which panics when
  the interface is nil or holds another wrapper, followed by the view constructor.
\<close>

definition IntGauge :: "Metric \<Rightarrow> panic + addr option" where
  "IntGauge ms =
     (case m_orig ms of
        None \<Rightarrow> Inl NilPointerDereference
      | Some m \<Rightarrow>
          (case Data m of
             Some (Metric_IntGauge a) \<Rightarrow> Inr a
           | _ \<Rightarrow> Inl TypeAssertionFailed))"

definition DoubleGauge :: "Metric \<Rightarrow> panic + addr option" where
  "DoubleGauge ms =
     (case m_orig ms of
        None \<Rightarrow> Inl NilPointerDereference
      | Some m \<Rightarrow>
          (case Data m of
             Some (Metric_DoubleGauge a) \<Rightarrow> Inr a
           | _ \<Rightarrow> Inl TypeAssertionFailed))"

definition IntSum :: "Metric \<Rightarrow> panic + addr option" where
  "IntSum ms =
     (case m_orig ms of
        None \<Rightarrow> Inl NilPointerDereference
      | Some m \<Rightarrow>
          (case Data m of
             Some (Metric_IntSum a) \<Rightarrow> Inr a
           | _ \<Rightarrow> Inl TypeAssertionFailed))"

definition DoubleSum :: "Metric \<Rightarrow> panic + addr option" where
  "DoubleSum ms =
     (case m_orig ms of
        None \<Rightarrow> Inl NilPointerDereference
      | Some m \<Rightarrow>
          (case Data m of
             Some (Metric_DoubleSum a) \<Rightarrow> Inr a
           | _ \<Rightarrow> Inl TypeAssertionFailed))"

definition IntHistogram :: "Metric \<Rightarrow> panic + addr option" where
  "IntHistogram ms =
     (case m_orig ms of
        None \<Rightarrow> Inl NilPointerDereference
      | Some m \<Rightarrow>
          (case Data m of
             Some (Metric_IntHistogram a) \<Rightarrow> Inr a
           | _ \<Rightarrow> Inl TypeAssertionFailed))"

definition Histogram :: "Metric \<Rightarrow> panic + addr option" where
  "Histogram ms =
     (case m_orig ms of
        None \<Rightarrow> Inl NilPointerDereference
      | Some m \<Rightarrow>
          (case Data m of
             Some (Metric_DoubleHistogram a) \<Rightarrow> Inr a
           | _ \<Rightarrow> Inl TypeAssertionFailed))"

definition Summary :: "Metric \<Rightarrow> panic + addr option" where
  "Summary ms =
     (case m_orig ms of
        None \<Rightarrow> Inl NilPointerDereference
      | Some m \<Rightarrow>
          (case Data m of
             Some (Metric_DoubleSummary a) \<Rightarrow> Inr a
           | _ \<Rightarrow> Inl TypeAssertionFailed))"

text \<open>
  \<^verbatim>\<open>copyData(src, dest *otlpmetrics.Metric)\<close> changes the store and the record behind
  \<^verbatim>\<open>dest\<close>; both are returned. The switch reads \<^verbatim>\<open>src.Data\<close> first; \<^verbatim>\<open>dest\<close> is only
  dereferenced by the assignment that ends a case.
\<close>

definition copyData ::
  "'p store \<Rightarrow> otlp_Metric option \<Rightarrow> otlp_Metric option
     \<Rightarrow> panic + ('p store \<times> otlp_Metric option)" where
  "copyData h src dest =
     (case src of
        None \<Rightarrow> Inl NilPointerDereference
      | Some s \<Rightarrow>
          (case Data s of
             Some (Metric_IntGauge srcData) \<Rightarrow>
               (let (data, h1) = store_new h (otlp_IntGauge []) in
                case CopyTo h1 srcData (Some data) of
                  Inl p \<Rightarrow> Inl p
                | Inr h2 \<Rightarrow>
                    (case assign_Data dest (Metric_IntGauge (Some data)) of
                       Inl p \<Rightarrow> Inl p | Inr ptr \<Rightarrow> Inr (h2, ptr)))
           | Some (Metric_DoubleGauge srcData) \<Rightarrow>
               (let (data, h1) = store_new h (otlp_DoubleGauge []) in
                case CopyTo h1 srcData (Some data) of
                  Inl p \<Rightarrow> Inl p
                | Inr h2 \<Rightarrow>
                    (case assign_Data dest (Metric_DoubleGauge (Some data)) of
                       Inl p \<Rightarrow> Inl p | Inr ptr \<Rightarrow> Inr (h2, ptr)))
           | Some (Metric_IntSum srcData) \<Rightarrow>
               (let (data, h1) = store_new h (otlp_IntSum [] 0) in
                case CopyTo h1 srcData (Some data) of
                  Inl p \<Rightarrow> Inl p
                | Inr h2 \<Rightarrow>
                    (case assign_Data dest (Metric_IntSum (Some data)) of
                       Inl p \<Rightarrow> Inl p | Inr ptr \<Rightarrow> Inr (h2, ptr)))
           | Some (Metric_DoubleSum srcData) \<Rightarrow>
               (let (data, h1) = store_new h (otlp_DoubleSum [] 0) in
                case CopyTo h1 srcData (Some data) of
                  Inl p \<Rightarrow> Inl p
                | Inr h2 \<Rightarrow>
                    (case assign_Data dest (Metric_DoubleSum (Some data)) of
                       Inl p \<Rightarrow> Inl p | Inr ptr \<Rightarrow> Inr (h2, ptr)))
           | Some (Metric_IntHistogram srcData) \<Rightarrow>
               (let (data, h1) = store_new h (otlp_IntHistogram [] 0) in
                case CopyTo h1 srcData (Some data) of
                  Inl p \<Rightarrow> Inl p
                | Inr h2 \<Rightarrow>
                    (case assign_Data dest (Metric_IntHistogram (Some data)) of
                       Inl p \<Rightarrow> Inl p | Inr ptr \<Rightarrow> Inr (h2, ptr)))
           | Some (Metric_DoubleHistogram srcData) \<Rightarrow>
               (let (data, h1) = store_new h (otlp_DoubleHistogram [] 0) in
                case CopyTo h1 srcData (Some data) of
                  Inl p \<Rightarrow> Inl p
                | Inr h2 \<Rightarrow>
                    (case assign_Data dest (Metric_DoubleHistogram (Some data)) of
                       Inl p \<Rightarrow> Inl p | Inr ptr \<Rightarrow> Inr (h2, ptr)))
           | Some (Metric_DoubleSummary srcData) \<Rightarrow>
               (let (data, h1) = store_new h (otlp_DoubleSummary []) in
                case CopyTo h1 srcData (Some data) of
                  Inl p \<Rightarrow> Inl p
                | Inr h2 \<Rightarrow>
                    (case assign_Data dest (Metric_DoubleSummary (Some data)) of
                       Inl p \<Rightarrow> Inl p | Inr ptr \<Rightarrow> Inr (h2, ptr)))
           | None \<Rightarrow> Inr (h, dest)))"

section \<open>Package pdata: aggregate traversal\<close>

text \<open>
  Go's \<^verbatim>\<open>int\<close> is a signed integer of 32 or 64 bits, depending on the platform. The
  counters \<^verbatim>\<open>metricCount\<close> and \<^verbatim>\<open>dataPointCount\<close> are words whose width is the type
  parameter \<open>'i\<close>: \<open>+\<close> wraps around as Go's \<^verbatim>\<open>+=\<close> does, and \<open>sint\<close> reads the value of
  the \<^verbatim>\<open>int\<close>. The length of a slice and an index that runs from 0 up to it never leave
  the range of \<^verbatim>\<open>int\<close>, so they are natural numbers, and \<open>word_of_nat\<close> turns a length
  into the \<^verbatim>\<open>int\<close> that \<^verbatim>\<open>Len()\<close> returns. Each \<^verbatim>\<open>for\<close> loop is a recursive function of
  its index and of the variables it updates.
\<close>

function MetricCount_ilms ::
  "otlp_InstrumentationLibraryMetrics list \<Rightarrow> nat \<Rightarrow> 'i::len word \<Rightarrow> panic + 'i word" where
  "MetricCount_ilms ilms j metricCount =
     (if j < Len ilms then
        (case At ilms j of
           Inl p \<Rightarrow> Inl p
         | Inr ilm \<Rightarrow>
             MetricCount_ilms ilms (j + 1) (metricCount + word_of_nat (Len (ilm_Metrics ilm))))
      else Inr metricCount)"
  by pat_completeness auto
termination
  by (relation "measure (\<lambda>(ilms, j, metricCount). length ilms - j)") (auto simp: Len_def)

function MetricCount_rms ::
  "otlp_ResourceMetrics list \<Rightarrow> nat \<Rightarrow> 'i::len word \<Rightarrow> panic + 'i word" where
  "MetricCount_rms rms i metricCount =
     (if i < Len rms then
        (case At rms i of
           Inl p \<Rightarrow> Inl p
         | Inr rm \<Rightarrow>
             (case MetricCount_ilms (rm_InstrumentationLibraryMetrics rm) 0 metricCount of
                Inl p \<Rightarrow> Inl p
              | Inr metricCount' \<Rightarrow> MetricCount_rms rms (i + 1) metricCount'))
      else Inr metricCount)"
  by pat_completeness auto
termination
  by (relation "measure (\<lambda>(rms, i, metricCount). length rms - i)") (auto simp: Len_def)

definition MetricCount :: "Metrics \<Rightarrow> panic + 'i::len word" where
  "MetricCount md =
     (case Metrics_ResourceMetrics md of
        Inl p \<Rightarrow> Inl p
      | Inr rms \<Rightarrow> MetricCount_rms rms 0 0)"

text \<open>The \<^verbatim>\<open>switch m.DataType()\<close> of the innermost loop, from the value of
  \<^verbatim>\<open>dataPointCount\<close> before it to the value after it. The switch has no case for
  \<^verbatim>\<open>MetricDataTypeNone\<close> and no default.\<close>

definition dataPointCount_switch ::
  "'p store \<Rightarrow> Metric \<Rightarrow> 'i::len word \<Rightarrow> panic + 'i word" where
  "dataPointCount_switch h m dataPointCount =
     (case DataType m of
        Inl p \<Rightarrow> Inl p
      | Inr ty \<Rightarrow>
           if ty = MetricDataTypeIntGauge then
             (case IntGauge m of
                Inl p \<Rightarrow> Inl p
              | Inr view \<Rightarrow>
                  (case DataPoints_Len h view of
                     Inl p \<Rightarrow> Inl p
                   | Inr n \<Rightarrow> Inr (dataPointCount + word_of_nat n)))
           else if ty = MetricDataTypeDoubleGauge then
             (case DoubleGauge m of
                Inl p \<Rightarrow> Inl p
              | Inr view \<Rightarrow>
                  (case DataPoints_Len h view of
                     Inl p \<Rightarrow> Inl p
                   | Inr n \<Rightarrow> Inr (dataPointCount + word_of_nat n)))
           else if ty = MetricDataTypeIntSum then
             (case IntSum m of
                Inl p \<Rightarrow> Inl p
              | Inr view \<Rightarrow>
                  (case DataPoints_Len h view of
                     Inl p \<Rightarrow> Inl p
                   | Inr n \<Rightarrow> Inr (dataPointCount + word_of_nat n)))
           else if ty = MetricDataTypeDoubleSum then
             (case DoubleSum m of
                Inl p \<Rightarrow> Inl p
              | Inr view \<Rightarrow>
                  (case DataPoints_Len h view of
                     Inl p \<Rightarrow> Inl p
                   | Inr n \<Rightarrow> Inr (dataPointCount + word_of_nat n)))
           else if ty = MetricDataTypeIntHistogram then
             (case IntHistogram m of
                Inl p \<Rightarrow> Inl p
              | Inr view \<Rightarrow>
                  (case DataPoints_Len h view of
                     Inl p \<Rightarrow> Inl p
                   | Inr n \<Rightarrow> Inr (dataPointCount + word_of_nat n)))
           else if ty = MetricDataTypeHistogram then
             (case Histogram m of
                Inl p \<Rightarrow> Inl p
              | Inr view \<Rightarrow>
                  (case DataPoints_Len h view of
                     Inl p \<Rightarrow> Inl p
                   | Inr n \<Rightarrow> Inr (dataPointCount + word_of_nat n)))
           else if ty = MetricDataTypeSummary then
             (case Summary m of
                Inl p \<Rightarrow> Inl p
              | Inr view \<Rightarrow>
                  (case DataPoints_Len h view of
                     Inl p \<Rightarrow> Inl p
                   | Inr n \<Rightarrow> Inr (dataPointCount + word_of_nat n)))
           else Inr dataPointCount)"

function MetricAndDataPointCount_ms ::
  "'p store \<Rightarrow> otlp_Metric list \<Rightarrow> nat \<Rightarrow> 'i::len word \<Rightarrow> panic + 'i word" where
  "MetricAndDataPointCount_ms h ms k dataPointCount =
     (if k < Len ms then
        (case At ms k of
           Inl p \<Rightarrow> Inl p
         | Inr elem \<Rightarrow>
             (case dataPointCount_switch h (Metric (Some elem)) dataPointCount of
                Inl p \<Rightarrow> Inl p
              | Inr dataPointCount' \<Rightarrow> MetricAndDataPointCount_ms h ms (k + 1) dataPointCount'))
      else Inr dataPointCount)"
  by pat_completeness auto
termination
  by (relation "measure (\<lambda>(h, ms, k, dataPointCount). length ms - k)") (auto simp: Len_def)

function MetricAndDataPointCount_ilms ::
  "'p store \<Rightarrow> otlp_InstrumentationLibraryMetrics list \<Rightarrow> nat \<Rightarrow> 'i::len word \<times> 'i word
     \<Rightarrow> panic + 'i word \<times> 'i word" where
  "MetricAndDataPointCount_ilms h ilms j counts =
     (if j < Len ilms then
        (case At ilms j of
           Inl p \<Rightarrow> Inl p
         | Inr ilm \<Rightarrow>
             (let metrics = ilm_Metrics ilm;
                  metricCount = fst counts + word_of_nat (Len metrics);
                  ms = ilm_Metrics ilm
              in case MetricAndDataPointCount_ms h ms 0 (snd counts) of
                   Inl p \<Rightarrow> Inl p
                 | Inr dataPointCount \<Rightarrow>
                     MetricAndDataPointCount_ilms h ilms (j + 1) (metricCount, dataPointCount)))
      else Inr counts)"
  by pat_completeness auto
termination
  by (relation "measure (\<lambda>(h, ilms, j, counts). length ilms - j)") (auto simp: Len_def)

function MetricAndDataPointCount_rms ::
  "'p store \<Rightarrow> otlp_ResourceMetrics list \<Rightarrow> nat \<Rightarrow> 'i::len word \<times> 'i word
     \<Rightarrow> panic + 'i word \<times> 'i word" where
  "MetricAndDataPointCount_rms h rms i counts =
     (if i < Len rms then
        (case At rms i of
           Inl p \<Rightarrow> Inl p
         | Inr rm \<Rightarrow>
             (case MetricAndDataPointCount_ilms h (rm_InstrumentationLibraryMetrics rm) 0 counts of
                Inl p \<Rightarrow> Inl p
              | Inr counts' \<Rightarrow> MetricAndDataPointCount_rms h rms (i + 1) counts'))
      else Inr counts)"
  by pat_completeness auto
termination
  by (relation "measure (\<lambda>(h, rms, i, counts). length rms - i)") (auto simp: Len_def)

text \<open>The named results \<^verbatim>\<open>(metricCount int, dataPointCount int)\<close> start at zero.\<close>

definition MetricAndDataPointCount ::
  "'p store \<Rightarrow> Metrics \<Rightarrow> panic + 'i::len word \<times> 'i word" where
  "MetricAndDataPointCount h md =
     (case Metrics_ResourceMetrics md of
        Inl p \<Rightarrow> Inl p
      | Inr rms \<Rightarrow> MetricAndDataPointCount_rms h rms 0 (0, 0))"

section \<open>Package pdata: the marshaling pipeline\<close>

text \<open>
  The four interfaces are implemented by the caller. A method may have effects of its
  own, so it is a function of the state \<open>'w\<close> it runs in and returns the state it leaves,
  next to Go's pair of a result and a possibly-nil error. The protocol-specific model
  \<^verbatim>\<open>interface{}\<close> is the type parameter \<open>'m\<close>; a \<^verbatim>\<open>[]byte\<close> that may be nil is a
  \<open>byte list option\<close>.
\<close>

type_synonym ('a, 'w) method_result = "('a \<times> go_error option) \<times> 'w"

record ('m, 'w) metricsMarshaler =
  encoder :: "'m \<Rightarrow> 'w \<Rightarrow> (byte list option, 'w) method_result"
  translator :: "Metrics \<Rightarrow> 'w \<Rightarrow> ('m, 'w) method_result"

definition Marshal ::
  "('m, 'w) metricsMarshaler \<Rightarrow> Metrics \<Rightarrow> 'w \<Rightarrow> (byte list option, 'w) method_result" where
  "Marshal t td w =
     (case translator t td w of
        ((model, Some err), w1) \<Rightarrow>
          ((None, Some (Errorf_w ''converting pdata to model failed: '' err)), w1)
      | ((model, None), w1) \<Rightarrow>
          (case encoder t model w1 of
             ((buf, Some err), w2) \<Rightarrow> ((None, Some (Errorf_w ''marshal failed: '' err)), w2)
           | ((buf, None), w2) \<Rightarrow> ((buf, None), w2)))"

record ('m, 'w) metricsUnmarshaler =
  decoder :: "byte list option \<Rightarrow> 'w \<Rightarrow> ('m, 'w) method_result"
  um_translator :: "'m \<Rightarrow> 'w \<Rightarrow> (Metrics, 'w) method_result"

definition Unmarshal ::
  "('m, 'w) metricsUnmarshaler \<Rightarrow> byte list option \<Rightarrow> 'w \<Rightarrow> (Metrics, 'w) method_result" where
  "Unmarshal t buf w =
     (case decoder t buf w of
        ((model, Some err), w1) \<Rightarrow>
          ((Metrics None, Some (Errorf_w ''unmarshal failed: '' err)), w1)
      | ((model, None), w1) \<Rightarrow>
          (case um_translator t model w1 of
             ((td, Some err), w2) \<Rightarrow>
               ((Metrics None, Some (Errorf_w ''converting model to pdata failed: '' err)), w2)
           | ((td, None), w2) \<Rightarrow> ((td, None), w2)))"

section \<open>Vocabulary of the statements\<close>

text \<open>The function package's equations of the loops are applied by hand.\<close>

declare MetricCount_ilms.simps [simp del] MetricCount_rms.simps [simp del]
  MetricAndDataPointCount_ms.simps [simp del] MetricAndDataPointCount_ilms.simps [simp del]
  MetricAndDataPointCount_rms.simps [simp del]

text \<open>The seven wrappers of the oneof field \<^verbatim>\<open>Data\<close>; every non-nil value of the field is
  one of them applied to a pointer.\<close>

definition variant_wrappers :: "(addr option \<Rightarrow> isMetric_Data) set" where
  "variant_wrappers =
     {Metric_IntGauge, Metric_DoubleGauge, Metric_IntSum, Metric_DoubleSum,
      Metric_IntHistogram, Metric_DoubleHistogram, Metric_DoubleSummary}"

text \<open>For each settable data type: its wrapper and the zero value of its message.\<close>

definition variant_table ::
  "(MetricDataType \<times> (addr option \<Rightarrow> isMetric_Data) \<times> 'p otlp_message) list" where
  "variant_table =
     [(MetricDataTypeIntGauge, Metric_IntGauge, otlp_IntGauge []),
      (MetricDataTypeDoubleGauge, Metric_DoubleGauge, otlp_DoubleGauge []),
      (MetricDataTypeIntSum, Metric_IntSum, otlp_IntSum [] 0),
      (MetricDataTypeDoubleSum, Metric_DoubleSum, otlp_DoubleSum [] 0),
      (MetricDataTypeIntHistogram, Metric_IntHistogram, otlp_IntHistogram [] 0),
      (MetricDataTypeHistogram, Metric_DoubleHistogram, otlp_DoubleHistogram [] 0),
      (MetricDataTypeSummary, Metric_DoubleSummary, otlp_DoubleSummary [])]"

text \<open>The message pointer a wrapper holds.\<close>

definition variant_ptr :: "isMetric_Data \<Rightarrow> addr option" where
  "variant_ptr d =
     (case d of
        Metric_IntGauge p \<Rightarrow> p | Metric_DoubleGauge p \<Rightarrow> p | Metric_IntSum p \<Rightarrow> p
      | Metric_DoubleSum p \<Rightarrow> p | Metric_IntHistogram p \<Rightarrow> p
      | Metric_DoubleHistogram p \<Rightarrow> p | Metric_DoubleSummary p \<Rightarrow> p)"

text \<open>The number of data points of a metric's active variant: the length of the point
  collection of the message its wrapper points to, and 0 when no variant is set.\<close>

definition active_points :: "'p store \<Rightarrow> otlp_Metric \<Rightarrow> nat" where
  "active_points h m =
     (case Data m of
        None \<Rightarrow> 0
      | Some d \<Rightarrow>
          (case variant_ptr d of None \<Rightarrow> 0 | Some a \<Rightarrow> length (DataPoints (h ! a))))"

text \<open>The message pointer of a metric's wrapper, if the metric has a wrapper, is not nil
  and refers to a cell of the store.\<close>

definition storage_allocated :: "'p store \<Rightarrow> otlp_Metric \<Rightarrow> bool" where
  "storage_allocated h m =
     (case Data m of
        None \<Rightarrow> True
      | Some d \<Rightarrow> (case variant_ptr d of None \<Rightarrow> False | Some a \<Rightarrow> a < length h))"

text \<open>The number of metrics of a tree: the lengths of the metric slices, summed over every
  resource and every instrumentation scope.\<close>

definition metric_total :: "ExportMetricsServiceRequest \<Rightarrow> nat" where
  "metric_total req =
     (\<Sum>rm\<leftarrow>ResourceMetrics req.
        \<Sum>ilm\<leftarrow>rm_InstrumentationLibraryMetrics rm. length (ilm_Metrics ilm))"

text \<open>The number of data points of a tree: the points of the active variant, summed over
  every metric of every scope of every resource.\<close>

definition point_total :: "'p store \<Rightarrow> ExportMetricsServiceRequest \<Rightarrow> nat" where
  "point_total h req =
     (\<Sum>rm\<leftarrow>ResourceMetrics req. \<Sum>ilm\<leftarrow>rm_InstrumentationLibraryMetrics rm.
        \<Sum>m\<leftarrow>ilm_Metrics ilm. active_points h m)"

section \<open>Example inputs\<close>

definition failing_translator :: "Metrics \<Rightarrow> nat \<Rightarrow> (unit, nat) method_result" where
  "failing_translator td w = (((), Some (errorString ''boom'')), w + 1)"

definition ok_translator :: "Metrics \<Rightarrow> nat \<Rightarrow> (unit, nat) method_result" where
  "ok_translator td w = (((), None), w + 1)"

definition failing_encoder :: "unit \<Rightarrow> nat \<Rightarrow> (byte list option, nat) method_result" where
  "failing_encoder model w = ((Some [1, 2], Some (errorString ''bad'')), w + 10)"

definition failing_decoder :: "byte list option \<Rightarrow> nat \<Rightarrow> (unit, nat) method_result" where
  "failing_decoder buf w = (((), Some (errorString ''garbled'')), w + 1)"

definition ok_decoder :: "byte list option \<Rightarrow> nat \<Rightarrow> (unit, nat) method_result" where
  "ok_decoder buf w = (((), None), w + 1)"

text \<open>A translator that fails and still returns a non-zero \<^verbatim>\<open>Metrics\<close> next to its error.\<close>

definition failing_to_translator :: "unit \<Rightarrow> nat \<Rightarrow> (Metrics, nat) method_result" where
  "failing_to_translator model w = ((NewMetrics, Some (errorString ''unknown unit'')), w + 10)"

definition gauge_metric :: otlp_Metric where
  "gauge_metric = \<lparr>Name = ''requests'', Description = '''', Unit = ''1'',
                    Data = Some (Metric_IntGauge (Some 0))\<rparr>"

definition untyped_metric :: otlp_Metric where
  "untyped_metric = \<lparr>Name = ''pending'', Description = '''', Unit = '''', Data = None\<rparr>"

definition sum_metric :: otlp_Metric where
  "sum_metric = \<lparr>Name = ''bytes'', Description = '''', Unit = ''By'',
                  Data = Some (Metric_IntSum (Some 1))\<rparr>"

text \<open>A metric whose wrapper holds a nil message pointer, the struct literal
  \<^verbatim>\<open>&Metric{Name: "broken", Data: &Metric_IntGauge{}}\<close>.\<close>

definition nil_gauge_metric :: otlp_Metric where
  "nil_gauge_metric = \<lparr>Name = ''broken'', Description = '''', Unit = '''',
                        Data = Some (Metric_IntGauge None)\<rparr>"

text \<open>A store with an int gauge of two points at address 0 and an int sum of three points
  at address 1; data points are numbers in the examples.\<close>

definition example_store :: "nat store" where
  "example_store = [otlp_IntGauge [10, 20], otlp_IntSum [1, 2, 3] 2]"

text \<open>One resource, one scope, one int sum: the scenario of the specification.\<close>

definition scenario_metrics :: Metrics where
  "scenario_metrics =
     Metrics (Some \<lparr>ResourceMetrics =
       [\<lparr>rm_InstrumentationLibraryMetrics = [\<lparr>ilm_Metrics = [sum_metric]\<rparr>]\<rparr>]\<rparr>)"

text \<open>Two resources, each with one scope of two metrics.\<close>

definition grid_request :: ExportMetricsServiceRequest where
  "grid_request =
     \<lparr>ResourceMetrics =
        [\<lparr>rm_InstrumentationLibraryMetrics = [\<lparr>ilm_Metrics = [gauge_metric, untyped_metric]\<rparr>]\<rparr>,
         \<lparr>rm_InstrumentationLibraryMetrics = [\<lparr>ilm_Metrics = [sum_metric, gauge_metric]\<rparr>]\<rparr>]\<rparr>"

text \<open>One resource and one scope around a single metric.\<close>

definition single_request :: "otlp_Metric \<Rightarrow> ExportMetricsServiceRequest" where
  "single_request m =
     \<lparr>ResourceMetrics = [\<lparr>rm_InstrumentationLibraryMetrics = [\<lparr>ilm_Metrics = [m]\<rparr>]\<rparr>]\<rparr>"

text \<open>A tree of \<open>n\<close> resources, each with \<open>n\<close> scopes, each with \<open>n\<close> metrics. The slices
  hold pointers, and here every slot of a slice holds the same pointer, so the tree takes
  three slices of \<open>n\<close> pointers and one metric.\<close>

definition cube_request :: "nat \<Rightarrow> otlp_Metric \<Rightarrow> ExportMetricsServiceRequest" where
  "cube_request n m =
     \<lparr>ResourceMetrics =
        replicate n \<lparr>rm_InstrumentationLibraryMetrics = replicate n \<lparr>ilm_Metrics = replicate n m\<rparr>\<rparr>\<rparr>"

section \<open>Theorems\<close>

subsection \<open>MetricDataType.String\<close>

text \<open>
  C10. \<^verbatim>\<open>MetricDataType.String()\<close> is a total function without a panicking branch: on the
  eight constants it returns "None", "IntGauge", "DoubleGauge", "IntSum", "DoubleSum",
  "IntHistogram", "Histogram" and "Summary" in this order, and on every other 32-bit value
  it returns the empty string.
\<close>

theorem MetricDataType_String_total:
  "MetricDataType_String MetricDataTypeNone = ''None'' \<and>
   MetricDataType_String MetricDataTypeIntGauge = ''IntGauge'' \<and>
   MetricDataType_String MetricDataTypeDoubleGauge = ''DoubleGauge'' \<and>
   MetricDataType_String MetricDataTypeIntSum = ''IntSum'' \<and>
   MetricDataType_String MetricDataTypeDoubleSum = ''DoubleSum'' \<and>
   MetricDataType_String MetricDataTypeIntHistogram = ''IntHistogram'' \<and>
   MetricDataType_String MetricDataTypeHistogram = ''Histogram'' \<and>
   MetricDataType_String MetricDataTypeSummary = ''Summary'' \<and>
   (mdt \<notin> {MetricDataTypeNone, MetricDataTypeIntGauge, MetricDataTypeDoubleGauge,
            MetricDataTypeIntSum, MetricDataTypeDoubleSum, MetricDataTypeIntHistogram,
            MetricDataTypeHistogram, MetricDataTypeSummary}
      \<longrightarrow> MetricDataType_String mdt = '''')"
  by (simp add: MetricDataType_String_def MetricDataType_defs)

theorem MetricDataType_String_total_witness:
  "(8 :: MetricDataType) \<notin> {MetricDataTypeNone, MetricDataTypeIntGauge,
       MetricDataTypeDoubleGauge, MetricDataTypeIntSum, MetricDataTypeDoubleSum,
       MetricDataTypeIntHistogram, MetricDataTypeHistogram, MetricDataTypeSummary}
   \<and> MetricDataType_String 8 = ''''
   \<and> MetricDataType_String (- 1) = ''''"
  using MetricDataType_String_total [of 8] MetricDataType_String_total [of "- 1"]
  by (simp add: MetricDataType_defs)

subsection \<open>OAuth2ClientCredentials.RoundTripper\<close>

text \<open>
  C9. \<^verbatim>\<open>c.RoundTripper(base)\<close> returns a non-nil error exactly when one of \<^verbatim>\<open>ClientID\<close>,
  \<^verbatim>\<open>ClientSecret\<close>, \<^verbatim>\<open>TokenURL\<close> is the empty string. The error names the first empty
  field in the order ClientID, ClientSecret, TokenURL and comes with a nil transport; the
  three errors are different from each other. When the three fields are non-empty the
  transport is non-nil and the error is nil.
\<close>

theorem RoundTripper_error_iff:
  "(snd (RoundTripper c base) \<noteq> None
      \<longleftrightarrow> ClientID c = '''' \<or> ClientSecret c = '''' \<or> TokenURL c = '''') \<and>
   (ClientID c = '''' \<longrightarrow> RoundTripper c base = (None, Some errNoClientIDProvided)) \<and>
   (ClientID c \<noteq> '''' \<and> ClientSecret c = ''''
      \<longrightarrow> RoundTripper c base = (None, Some errNoClientSecretProvided)) \<and>
   (ClientID c \<noteq> '''' \<and> ClientSecret c \<noteq> '''' \<and> TokenURL c = ''''
      \<longrightarrow> RoundTripper c base = (None, Some errNoTokenURLProvided)) \<and>
   (ClientID c \<noteq> '''' \<and> ClientSecret c \<noteq> '''' \<and> TokenURL c \<noteq> ''''
      \<longrightarrow> fst (RoundTripper c base) \<noteq> None \<and> snd (RoundTripper c base) = None) \<and>
   errNoClientIDProvided \<noteq> errNoClientSecretProvided \<and>
   errNoClientIDProvided \<noteq> errNoTokenURLProvided \<and>
   errNoClientSecretProvided \<noteq> errNoTokenURLProvided"
  by (simp add: RoundTripper_def Let_def errNoClientIDProvided_def
        errNoClientSecretProvided_def errNoTokenURLProvided_def errors_New_def)

theorem RoundTripper_error_iff_witness:
  "RoundTripper \<lparr>ClientID = '''', ClientSecret = '''', TokenURL = '''', Scopes = []\<rparr> (0::nat)
     = (None, Some errNoClientIDProvided) \<and>
   RoundTripper \<lparr>ClientID = ''id'', ClientSecret = '''', TokenURL = '''', Scopes = []\<rparr> (0::nat)
     = (None, Some errNoClientSecretProvided) \<and>
   RoundTripper \<lparr>ClientID = ''id'', ClientSecret = ''s'', TokenURL = '''', Scopes = []\<rparr> (0::nat)
     = (None, Some errNoTokenURLProvided) \<and>
   fst (RoundTripper \<lparr>ClientID = ''id'', ClientSecret = ''s'', TokenURL = ''http://t'',
         Scopes = [''a'']\<rparr> (0::nat)) \<noteq> None \<and>
   snd (RoundTripper \<lparr>ClientID = ''id'', ClientSecret = ''s'', TokenURL = ''http://t'',
         Scopes = [''a'']\<rparr> (0::nat)) = None"
  using
    RoundTripper_error_iff
      [of "\<lparr>ClientID = '''', ClientSecret = '''', TokenURL = '''', Scopes = []\<rparr>" "0::nat"]
    RoundTripper_error_iff
      [of "\<lparr>ClientID = ''id'', ClientSecret = '''', TokenURL = '''', Scopes = []\<rparr>" "0::nat"]
    RoundTripper_error_iff
      [of "\<lparr>ClientID = ''id'', ClientSecret = ''s'', TokenURL = '''', Scopes = []\<rparr>" "0::nat"]
    RoundTripper_error_iff
      [of "\<lparr>ClientID = ''id'', ClientSecret = ''s'', TokenURL = ''http://t'',
            Scopes = [''a'']\<rparr>" "0::nat"]
  by simp

subsection \<open>Marshal and Unmarshal\<close>

text \<open>
  C1, as the claim states it, does not hold: the context that \<^verbatim>\<open>Marshal\<close> puts before a
  translation error is "converting pdata to model failed", not "converting to model
  failed". With a translator that fails with the message "boom", the returned error reads
  "converting pdata to model failed: boom".
\<close>

theorem Marshal_context_counterexample:
  "map_option Error
     (snd (fst (Marshal \<lparr>encoder = failing_encoder, translator = failing_translator\<rparr>
                  NewMetrics 0)))
     = Some ''converting pdata to model failed: boom'' \<and>
   map_option Error
     (snd (fst (Marshal \<lparr>encoder = failing_encoder, translator = failing_translator\<rparr>
                  NewMetrics 0)))
     \<noteq> Some ''converting to model failed: boom''"
  by (simp add: Marshal_def failing_translator_def Errorf_w_def)

text \<open>
  C1, amended. If the translator's \<^verbatim>\<open>FromMetrics(md)\<close> returns a non-nil error \<open>e\<close>, then
  \<^verbatim>\<open>Marshal(md)\<close> returns nil bytes and an error that wraps \<open>e\<close> with the message
  "converting pdata to model failed: " followed by \<open>e\<close>'s message; the state it leaves is
  the one the translator left, and the result is the same whatever the encoder is, so the
  encoder is not invoked. If translation succeeds and \<^verbatim>\<open>EncodeMetrics\<close> returns a non-nil
  error \<open>e\<close>, \<^verbatim>\<open>Marshal\<close> returns nil bytes and \<open>e\<close> wrapped with "marshal failed: ".
\<close>

theorem Marshal_fail_fast:
  "(translator t td w = ((model, Some e), wa) \<longrightarrow>
      Marshal t td w
        = ((None, Some (wrapError (''converting pdata to model failed: '' @ Error e) e)), wa) \<and>
      (\<forall>enc. Marshal (t\<lparr>encoder := enc\<rparr>) td w = Marshal t td w)) \<and>
   (translator t td w = ((model, None), wa) \<and> encoder t model wa = ((buf, Some e), wb) \<longrightarrow>
      Marshal t td w = ((None, Some (wrapError (''marshal failed: '' @ Error e) e)), wb))"
  by (simp add: Marshal_def Errorf_w_def)

theorem Marshal_fail_fast_witness:
  "Marshal \<lparr>encoder = failing_encoder, translator = failing_translator\<rparr> NewMetrics 0
     = ((None, Some (wrapError ''converting pdata to model failed: boom''
                       (errorString ''boom''))), 1) \<and>
   Marshal \<lparr>encoder = failing_encoder, translator = ok_translator\<rparr> NewMetrics 0
     = ((None, Some (wrapError ''marshal failed: bad'' (errorString ''bad''))), 11)"
  using
    Marshal_fail_fast
      [where t = "\<lparr>encoder = failing_encoder, translator = failing_translator\<rparr>"
         and td = NewMetrics and w = 0 and model = "()" and e = "errorString ''boom''"
         and wa = 1]
    Marshal_fail_fast
      [where t = "\<lparr>encoder = failing_encoder, translator = ok_translator\<rparr>"
         and td = NewMetrics and w = 0 and model = "()" and wa = 1 and buf = "Some [1, 2]"
         and e = "errorString ''bad''" and wb = 11]
  by (simp add: failing_translator_def ok_translator_def failing_encoder_def)

text \<open>
  C2, as the claim states it, does not hold: the context that \<^verbatim>\<open>Unmarshal\<close> puts before
  a translation error is "converting model to pdata failed", not "converting to canonical
  failed". With a translator that fails with the message "unknown unit", the returned error
  reads "converting model to pdata failed: unknown unit".
\<close>

theorem Unmarshal_context_counterexample:
  "map_option Error
     (snd (fst (Unmarshal \<lparr>decoder = ok_decoder, um_translator = failing_to_translator\<rparr>
                  (Some [1]) 0)))
     = Some ''converting model to pdata failed: unknown unit'' \<and>
   map_option Error
     (snd (fst (Unmarshal \<lparr>decoder = ok_decoder, um_translator = failing_to_translator\<rparr>
                  (Some [1]) 0)))
     \<noteq> Some ''converting to canonical failed: unknown unit''"
  by (simp add: Unmarshal_def ok_decoder_def failing_to_translator_def Errorf_w_def)

text \<open>
  C2, amended. If the decoder's \<^verbatim>\<open>DecodeMetrics(buf)\<close> returns a non-nil error \<open>e\<close>, then
  \<^verbatim>\<open>Unmarshal(buf)\<close> returns the zero \<^verbatim>\<open>Metrics\<close> and \<open>e\<close> wrapped with "unmarshal failed: ";
  the state it leaves is the one the decoder left, and the result is the same whatever the
  translator is, so the translator is not invoked. If decoding succeeds and the
  translator's \<^verbatim>\<open>ToMetrics\<close> returns a non-nil error \<open>e\<close>, \<^verbatim>\<open>Unmarshal\<close> returns the zero
  \<^verbatim>\<open>Metrics\<close> and \<open>e\<close> wrapped with "converting model to pdata failed: ". Whenever the
  returned error is non-nil, the returned value is the zero \<^verbatim>\<open>Metrics\<close>.
\<close>

theorem Unmarshal_fail_fast:
  "(decoder t buf w = ((model, Some e), wa) \<longrightarrow>
      Unmarshal t buf w
        = ((Metrics None, Some (wrapError (''unmarshal failed: '' @ Error e) e)), wa) \<and>
      (\<forall>tr. Unmarshal (t\<lparr>um_translator := tr\<rparr>) buf w = Unmarshal t buf w)) \<and>
   (decoder t buf w = ((model, None), wa) \<and> um_translator t model wa = ((td, Some e), wb) \<longrightarrow>
      Unmarshal t buf w
        = ((Metrics None,
            Some (wrapError (''converting model to pdata failed: '' @ Error e) e)), wb)) \<and>
   (snd (fst (Unmarshal t buf w)) \<noteq> None \<longrightarrow> fst (fst (Unmarshal t buf w)) = Metrics None)"
  by (simp add: Unmarshal_def Errorf_w_def split: prod.split option.split)

theorem Unmarshal_fail_fast_witness:
  "Unmarshal \<lparr>decoder = failing_decoder, um_translator = failing_to_translator\<rparr> (Some [1]) 0
     = ((Metrics None, Some (wrapError ''unmarshal failed: garbled''
                               (errorString ''garbled''))), 1) \<and>
   Unmarshal \<lparr>decoder = ok_decoder, um_translator = failing_to_translator\<rparr> (Some [1]) 0
     = ((Metrics None, Some (wrapError ''converting model to pdata failed: unknown unit''
                               (errorString ''unknown unit''))), 11)"
  using
    Unmarshal_fail_fast
      [where t = "\<lparr>decoder = failing_decoder, um_translator = failing_to_translator\<rparr>"
         and buf = "Some [1]" and w = 0 and model = "()" and e = "errorString ''garbled''"
         and wa = 1]
    Unmarshal_fail_fast
      [where t = "\<lparr>decoder = ok_decoder, um_translator = failing_to_translator\<rparr>"
         and buf = "Some [1]" and w = 0 and model = "()" and wa = 1 and td = NewMetrics
         and e = "errorString ''unknown unit''" and wb = 11]
  by (simp add: failing_decoder_def ok_decoder_def failing_to_translator_def)

subsection \<open>Metric.DataType, Metric.SetDataType and copyData\<close>

text \<open>
  C7. For a \<^verbatim>\<open>Metric\<close> that is not zero-initialized, \<^verbatim>\<open>DataType()\<close> returns the
  discriminant of the wrapper that \<^verbatim>\<open>ms.orig.Data\<close> holds and \<^verbatim>\<open>MetricDataTypeNone\<close> when
  the field is nil; the result is one of the eight constants. The function is a read: it
  is given neither the store nor a way to return a changed metric, so it allocates nothing
  and changes nothing.
\<close>

theorem DataType_pure_read:
  assumes "m_orig ms = Some m"
  shows "(Data m = None \<longrightarrow> DataType ms = Inr MetricDataTypeNone) \<and>
         (\<forall>a. Data m = Some (Metric_IntGauge a) \<longrightarrow> DataType ms = Inr MetricDataTypeIntGauge) \<and>
         (\<forall>a. Data m = Some (Metric_DoubleGauge a)
                \<longrightarrow> DataType ms = Inr MetricDataTypeDoubleGauge) \<and>
         (\<forall>a. Data m = Some (Metric_IntSum a) \<longrightarrow> DataType ms = Inr MetricDataTypeIntSum) \<and>
         (\<forall>a. Data m = Some (Metric_DoubleSum a) \<longrightarrow> DataType ms = Inr MetricDataTypeDoubleSum) \<and>
         (\<forall>a. Data m = Some (Metric_IntHistogram a)
                \<longrightarrow> DataType ms = Inr MetricDataTypeIntHistogram) \<and>
         (\<forall>a. Data m = Some (Metric_DoubleHistogram a)
                \<longrightarrow> DataType ms = Inr MetricDataTypeHistogram) \<and>
         (\<forall>a. Data m = Some (Metric_DoubleSummary a)
                \<longrightarrow> DataType ms = Inr MetricDataTypeSummary) \<and>
         (\<exists>k \<in> {MetricDataTypeNone, MetricDataTypeIntGauge, MetricDataTypeDoubleGauge,
                 MetricDataTypeIntSum, MetricDataTypeDoubleSum, MetricDataTypeIntHistogram,
                 MetricDataTypeHistogram, MetricDataTypeSummary}. DataType ms = Inr k)"
  using assms by (simp add: DataType_def split: option.split isMetric_Data.split)

theorem DataType_pure_read_witness:
  "DataType (Metric (Some sum_metric)) = Inr MetricDataTypeIntSum \<and>
   DataType (Metric (Some untyped_metric)) = Inr MetricDataTypeNone"
  using DataType_pure_read [of "Metric (Some sum_metric)" sum_metric]
        DataType_pure_read [of "Metric (Some untyped_metric)" untyped_metric]
  by (simp add: sum_metric_def untyped_metric_def)

text \<open>
  What \<^verbatim>\<open>SetDataType\<close> does for the seven data types its switch lists: it allocates the
  zero value of the message at an address that was not in use, makes \<^verbatim>\<open>Data\<close> the wrapper
  of that address whatever \<^verbatim>\<open>Data\<close> held before, and leaves the cells of the store and
  the other fields of the metric as they were; \<^verbatim>\<open>DataType()\<close> then returns the type set.
\<close>

lemma SetDataType_listed_types:
  assumes "m_orig ms = Some m" and "(k, W, zero_msg) \<in> set variant_table"
  shows "SetDataType h ms k
           = Inr (h @ [zero_msg], Metric (Some (m\<lparr>Data := Some (W (Some (length h)))\<rparr>))) \<and>
         DataType (Metric (Some (m\<lparr>Data := Some (W (Some (length h)))\<rparr>))) = Inr k \<and>
         store_load h (Some (length h)) = Inl NilPointerDereference \<and>
         store_load (h @ [zero_msg]) (Some (length h)) = Inr zero_msg \<and>
         DataPoints zero_msg = []"
  using assms
  by (auto simp: variant_table_def SetDataType_def store_new_def assign_Data_def DataType_def
        store_load_def MetricDataType_defs)

text \<open>
  C3, at the input where the code departs from the claim: a metric that holds an int
  gauge with two data points, and \<^verbatim>\<open>SetDataType(MetricDataTypeNone)\<close>. The switch has no
  case for \<^verbatim>\<open>MetricDataTypeNone\<close>: the call returns with the store and the metric as they
  were, and \<^verbatim>\<open>DataType()\<close> still returns \<^verbatim>\<open>MetricDataTypeIntGauge\<close>.
\<close>

theorem SetDataType_None_keeps_variant:
  "SetDataType example_store (Metric (Some gauge_metric)) MetricDataTypeNone
     = Inr (example_store, Metric (Some gauge_metric)) \<and>
   DataType (Metric (Some gauge_metric)) = Inr MetricDataTypeIntGauge \<and>
   MetricDataTypeIntGauge \<noteq> MetricDataTypeNone \<and>
   Data gauge_metric = Some (Metric_IntGauge (Some 0)) \<and>
   DataPoints_Len example_store (Some 0) = Inr 2"
  by (simp add: SetDataType_def DataType_def gauge_metric_def example_store_def
        DataPoints_Len_def store_load_def Len_def MetricDataType_defs)

text \<open>
  C8, as the claim states it, does not hold for every source with an active variant: a
  source whose wrapper holds a nil message pointer has the data type
  \<^verbatim>\<open>MetricDataTypeIntGauge\<close>, and \<^verbatim>\<open>copyData\<close> panics on it, in the copy out of the nil
  message, before it assigns anything to the destination.
\<close>

theorem copyData_nil_message_counterexample:
  "Data nil_gauge_metric = Some (Metric_IntGauge None) \<and>
   DataType (Metric (Some nil_gauge_metric)) = Inr MetricDataTypeIntGauge \<and>
   MetricDataTypeIntGauge \<noteq> MetricDataTypeNone \<and>
   copyData example_store (Some nil_gauge_metric) (Some untyped_metric)
     = Inl NilPointerDereference"
  by (simp add: nil_gauge_metric_def DataType_def MetricDataType_defs copyData_def
        store_new_def CopyTo_def store_load_def)

text \<open>
  C8, amended. If the source metric has no variant (\<^verbatim>\<open>src.Data\<close> is nil), \<^verbatim>\<open>copyData(src,
  dest)\<close> leaves the store and the destination as they were, so a destination that held a
  variant keeps it. If the source holds a wrapper \<open>W\<close> whose message pointer \<open>p\<close> is not nil
  and refers to a message \<open>msg\<close>, \<^verbatim>\<open>copyData\<close> allocates a cell at an address that was not
  in use, fills it with a copy of \<open>msg\<close>, and makes the destination's \<^verbatim>\<open>Data\<close> the same
  wrapper of the new address; the cells that existed before, the source's among them,
  keep their contents and the other fields of the destination are unchanged. The call
  panics when the source pointer is nil, when the wrapper's message pointer is nil, and
  when the source has a variant and the destination pointer is nil.
\<close>

theorem copyData_frame:
  "copyData h None dest = Inl NilPointerDereference \<and>
   (Data s = None \<longrightarrow> copyData h (Some s) dest = Inr (h, dest)) \<and>
   (W \<in> variant_wrappers \<and> Data s = Some (W None) \<longrightarrow>
      copyData h (Some s) dest = Inl NilPointerDereference) \<and>
   (W \<in> variant_wrappers \<and> Data s = Some (W p) \<and> store_load h p = Inr msg \<longrightarrow>
      copyData h (Some s) (Some t)
        = Inr (h @ [msg], Some (t\<lparr>Data := Some (W (Some (length h)))\<rparr>)) \<and>
      copyData h (Some s) None = Inl NilPointerDereference \<and>
      store_load h (Some (length h)) = Inl NilPointerDereference \<and>
      store_load (h @ [msg]) (Some (length h)) = Inr msg \<and>
      store_load (h @ [msg]) p = Inr msg \<and>
      p \<noteq> Some (length h))"
  by (auto simp: copyData_def variant_wrappers_def store_new_def CopyTo_def store_load_def
        assign_Data_def nth_append split: if_splits option.splits)

theorem copyData_frame_witness:
  "copyData example_store (Some untyped_metric) (Some gauge_metric)
     = Inr (example_store, Some gauge_metric) \<and>
   copyData example_store (Some nil_gauge_metric) (Some gauge_metric)
     = Inl NilPointerDereference \<and>
   copyData example_store (Some sum_metric) (Some gauge_metric)
     = Inr (example_store @ [otlp_IntSum [1, 2, 3] 2],
            Some (gauge_metric\<lparr>Data := Some (Metric_IntSum (Some 2))\<rparr>))"
  using
    copyData_frame [where s = untyped_metric and h = example_store
       and dest = "Some gauge_metric"]
    copyData_frame [where s = nil_gauge_metric and h = example_store and W = Metric_IntGauge
       and dest = "Some gauge_metric"]
    copyData_frame [where s = sum_metric and h = example_store and W = Metric_IntSum
       and p = "Some 1" and msg = "otlp_IntSum [1, 2, 3] 2" and t = gauge_metric]
  by (simp add: untyped_metric_def sum_metric_def nil_gauge_metric_def example_store_def
        store_load_def variant_wrappers_def)

subsection \<open>Metrics.MetricCount\<close>

text \<open>A sum of natural numbers that is below half the range of the word is the value that
  \<open>sint\<close> reads from the word of the sum.\<close>

lemma sint_word_of_nat:
  assumes "N < 2 ^ (LENGTH('i::len) - 1)"
  shows "sint (word_of_nat N :: 'i word) = int N"
proof -
  have "int N < 2 ^ (LENGTH('i) - 1)"
    using assms by simp
  moreover have "- (2 ^ (LENGTH('i) - 1)) \<le> int N"
    by (rule order_trans [of _ 0]) simp_all
  ultimately have "signed_take_bit (LENGTH('i) - 1) (int N) = int N"
    by (rule signed_take_bit_int_eq_self [rotated])
  moreover have "sint (word_of_nat N :: 'i word) = signed_take_bit (LENGTH('i) - 1) (int N)"
    using sint_sbintrunc' [of "int N", where ?'a = 'i] by simp
  ultimately show ?thesis
    by simp
qed

text \<open>Each loop adds to its counter the sum over the elements from its index on.\<close>

lemma MetricCount_ilms_eq:
  "j \<le> length ilms \<Longrightarrow>
   MetricCount_ilms ilms j acc
     = Inr (acc + word_of_nat (\<Sum>ilm\<leftarrow>drop j ilms. length (ilm_Metrics ilm)))"
proof (induction ilms j acc rule: MetricCount_ilms.induct)
  case (1 ilms j metricCount)
  show ?case
  proof (cases "j < length ilms")
    case True
    then have d: "drop j ilms = ilms ! j # drop (Suc j) ilms"
      by (simp add: Cons_nth_drop_Suc)
    have "MetricCount_ilms ilms (j + 1)
            (metricCount + word_of_nat (Len (ilm_Metrics (ilms ! j))))
          = Inr (metricCount + word_of_nat (Len (ilm_Metrics (ilms ! j)))
                 + word_of_nat (\<Sum>ilm\<leftarrow>drop (j + 1) ilms. length (ilm_Metrics ilm)))"
      using True by (intro "1.IH") (simp_all add: Len_def At_def)
    then show ?thesis
      using True
      by (subst MetricCount_ilms.simps) (simp add: Len_def At_def d add.assoc)
  next
    case False
    with "1.prems" have "j = length ilms" by simp
    then show ?thesis
      by (subst MetricCount_ilms.simps) (simp add: Len_def)
  qed
qed

lemma MetricCount_rms_eq:
  "i \<le> length rms \<Longrightarrow>
   MetricCount_rms rms i acc
     = Inr (acc + word_of_nat
              (\<Sum>rm\<leftarrow>drop i rms.
                 \<Sum>ilm\<leftarrow>rm_InstrumentationLibraryMetrics rm. length (ilm_Metrics ilm)))"
proof (induction rms i acc rule: MetricCount_rms.induct)
  case (1 rms i metricCount)
  let ?n = "\<Sum>ilm\<leftarrow>rm_InstrumentationLibraryMetrics (rms ! i). length (ilm_Metrics ilm)"
  show ?case
  proof (cases "i < length rms")
    case True
    then have d: "drop i rms = rms ! i # drop (Suc i) rms"
      by (simp add: Cons_nth_drop_Suc)
    have inner: "MetricCount_ilms (rm_InstrumentationLibraryMetrics (rms ! i)) 0 metricCount
                   = Inr (metricCount + word_of_nat ?n)"
      by (simp add: MetricCount_ilms_eq)
    have "MetricCount_rms rms (i + 1) (metricCount + word_of_nat ?n)
            = Inr (metricCount + word_of_nat ?n
                   + word_of_nat
                       (\<Sum>rm\<leftarrow>drop (i + 1) rms.
                          \<Sum>ilm\<leftarrow>rm_InstrumentationLibraryMetrics rm. length (ilm_Metrics ilm)))"
      using True inner by (intro "1.IH") (simp_all add: Len_def At_def)
    then show ?thesis
      using True inner
      by (subst MetricCount_rms.simps) (simp add: Len_def At_def d add.assoc)
  next
    case False
    with "1.prems" have "i = length rms" by simp
    then show ?thesis
      by (subst MetricCount_rms.simps) (simp add: Len_def)
  qed
qed

lemma MetricCount_word:
  "orig md = Some req \<Longrightarrow> MetricCount md = Inr (word_of_nat (metric_total req))"
  by (simp add: MetricCount_def Metrics_ResourceMetrics_def MetricCount_rms_eq metric_total_def)

lemma uniform_tree_sum:
  assumes "length (ResourceMetrics req) = R"
    and "\<forall>rm \<in> set (ResourceMetrics req).
           length (rm_InstrumentationLibraryMetrics rm) = S \<and>
           (\<forall>ilm \<in> set (rm_InstrumentationLibraryMetrics rm). length (ilm_Metrics ilm) = M)"
  shows "metric_total req = R * S * M"
proof -
  have inner: "(\<Sum>ilm\<leftarrow>rm_InstrumentationLibraryMetrics rm. length (ilm_Metrics ilm)) = S * M"
    if "rm \<in> set (ResourceMetrics req)" for rm
  proof -
    have "(\<Sum>ilm\<leftarrow>rm_InstrumentationLibraryMetrics rm. length (ilm_Metrics ilm))
            = (\<Sum>ilm\<leftarrow>rm_InstrumentationLibraryMetrics rm. M)"
      using assms(2) that by (intro arg_cong [where f = sum_list] map_cong) auto
    also have "\<dots> = S * M"
      using assms(2) that by (simp add: sum_list_replicate map_replicate_const)
    finally show ?thesis .
  qed
  have "metric_total req = (\<Sum>rm\<leftarrow>ResourceMetrics req. S * M)"
    unfolding metric_total_def
    using inner by (intro arg_cong [where f = sum_list] map_cong) auto
  also have "\<dots> = R * S * M"
    using assms(1) by (simp add: sum_list_replicate map_replicate_const)
  finally show ?thesis .
qed

lemma metric_total_cube: "metric_total (cube_request n m) = n * n * n"
  by (rule uniform_tree_sum) (simp_all add: cube_request_def)

text \<open>
  C5, as the claim states it, does not hold for every \<^verbatim>\<open>Metrics\<close> value. On the zero
  value \<^verbatim>\<open>Metrics{}\<close>, which \<^verbatim>\<open>Unmarshal\<close> and \<^verbatim>\<open>MetricsFromOtlpProtoBytes\<close> return next
  to an error, \<^verbatim>\<open>md.ResourceMetrics()\<close> takes the address of a field behind the nil
  \<^verbatim>\<open>md.orig\<close>, and \<^verbatim>\<open>MetricCount()\<close> panics instead of returning a count. On a tree of
  \<open>2 ^ 21\<close> resources, each with \<open>2 ^ 21\<close> scopes, each with \<open>2 ^ 21\<close> metrics, the sum
  of the lengths is \<open>2 ^ 63\<close>, and a 64-bit \<^verbatim>\<open>int\<close> counter has wrapped around to
  \<open>- (2 ^ 63)\<close>.
\<close>

theorem MetricCount_counterexample:
  "(MetricCount (Metrics None) :: panic + 64 word) = Inl NilPointerDereference \<and>
   metric_total (cube_request (2 ^ 21) untyped_metric) = 2 ^ 63 \<and>
   (MetricCount (Metrics (Some (cube_request (2 ^ 21) untyped_metric))) :: panic + 64 word)
     = Inr (2 ^ 63) \<and>
   sint (2 ^ 63 :: 64 word) = - (2 ^ 63)"
proof -
  have "(MetricCount (Metrics None) :: panic + 64 word) = Inl NilPointerDereference"
    by (simp add: MetricCount_def Metrics_ResourceMetrics_def)
  moreover have t: "metric_total (cube_request (2 ^ 21) untyped_metric) = 2 ^ 63"
    by (simp add: metric_total_cube)
  moreover have
    "(MetricCount (Metrics (Some (cube_request (2 ^ 21) untyped_metric))) :: panic + 64 word)
       = Inr (2 ^ 63)"
  proof -
    have o: "orig (Metrics (Some (cube_request (2 ^ 21) untyped_metric)))
               = Some (cube_request (2 ^ 21) untyped_metric)"
      by simp
    show ?thesis
      unfolding MetricCount_word [OF o] t by simp
  qed
  moreover have "sint (2 ^ 63 :: 64 word) = - (2 ^ 63)"
    by simp
  ultimately show ?thesis
    by simp
qed

text \<open>
  C5, amended. For every \<^verbatim>\<open>Metrics\<close> value that holds a record tree (\<^verbatim>\<open>orig\<close> is not nil),
  \<^verbatim>\<open>MetricCount()\<close> returns the sum of the lengths of the metric slices over every
  resource and every instrumentation scope of the tree, reduced to the width \<open>w\<close> of Go's
  \<^verbatim>\<open>int\<close>; when the sum is below \<open>2 ^ (w - 1)\<close> the returned \<^verbatim>\<open>int\<close> is the sum itself. For a tree
  of \<open>R\<close> resources, each with \<open>S\<close> scopes, each with \<open>M\<close> metrics, the sum is \<open>R * S * M\<close>.
\<close>

theorem MetricCount_sum:
  assumes "orig md = Some req"
  shows "MetricCount md = Inr (word_of_nat (metric_total req) :: 'i::len word) \<and>
         (metric_total req < 2 ^ (LENGTH('i) - 1) \<longrightarrow>
            sint (word_of_nat (metric_total req) :: 'i word) = int (metric_total req)) \<and>
         (length (ResourceMetrics req) = R \<and>
          (\<forall>rm \<in> set (ResourceMetrics req).
             length (rm_InstrumentationLibraryMetrics rm) = S \<and>
             (\<forall>ilm \<in> set (rm_InstrumentationLibraryMetrics rm). length (ilm_Metrics ilm) = M))
          \<longrightarrow> metric_total req = R * S * M)"
  using assms by (simp add: MetricCount_word sint_word_of_nat uniform_tree_sum)

theorem MetricCount_sum_witness:
  "(MetricCount (Metrics (Some grid_request)) :: panic + 64 word) = Inr 4 \<and>
   sint (4 :: 64 word) = 4 \<and>
   metric_total grid_request = 2 * 1 * 2"
  using MetricCount_sum [of "Metrics (Some grid_request)" grid_request 2 1 2, where ?'i = 64]
  by (simp add: grid_request_def metric_total_def)

subsection \<open>Metrics.MetricAndDataPointCount\<close>

text \<open>The switch selects the accessor that matches the data type, so no type assertion
  fails, and adds the number of points behind the wrapper's pointer.\<close>

lemma dataPointCount_switch_eq:
  "storage_allocated h m \<Longrightarrow>
   dataPointCount_switch h (Metric (Some m)) acc = Inr (acc + word_of_nat (active_points h m))"
  by (cases "Data m"; cases "the (Data m)")
     (auto simp: dataPointCount_switch_def DataType_def active_points_def
        storage_allocated_def variant_ptr_def IntGauge_def DoubleGauge_def IntSum_def
        DoubleSum_def IntHistogram_def Histogram_def Summary_def DataPoints_Len_def
        store_load_def Len_def MetricDataType_defs split: option.splits)

lemma MetricAndDataPointCount_ms_eq:
  "k \<le> length ms \<Longrightarrow> \<forall>m \<in> set ms. storage_allocated h m \<Longrightarrow>
   MetricAndDataPointCount_ms h ms k acc
     = Inr (acc + word_of_nat (\<Sum>m\<leftarrow>drop k ms. active_points h m))"
proof (induction h ms k acc rule: MetricAndDataPointCount_ms.induct)
  case (1 h ms k dataPointCount)
  show ?case
  proof (cases "k < length ms")
    case True
    then have d: "drop k ms = ms ! k # drop (Suc k) ms"
      by (simp add: Cons_nth_drop_Suc)
    have sw: "dataPointCount_switch h (Metric (Some (ms ! k))) dataPointCount
                = Inr (dataPointCount + word_of_nat (active_points h (ms ! k)))"
      using True "1.prems" by (simp add: dataPointCount_switch_eq)
    have "MetricAndDataPointCount_ms h ms (k + 1)
            (dataPointCount + word_of_nat (active_points h (ms ! k)))
          = Inr (dataPointCount + word_of_nat (active_points h (ms ! k))
                 + word_of_nat (\<Sum>m\<leftarrow>drop (k + 1) ms. active_points h m))"
      using True sw "1.prems" by (intro "1.IH") (simp_all add: Len_def At_def)
    then show ?thesis
      using True sw
      by (subst MetricAndDataPointCount_ms.simps) (simp add: Len_def At_def d add.assoc)
  next
    case False
    with "1.prems" have "k = length ms" by simp
    then show ?thesis
      by (subst MetricAndDataPointCount_ms.simps) (simp add: Len_def)
  qed
qed

lemma MetricAndDataPointCount_ilms_eq:
  "j \<le> length ilms \<Longrightarrow>
   \<forall>ilm \<in> set ilms. \<forall>m \<in> set (ilm_Metrics ilm). storage_allocated h m \<Longrightarrow>
   MetricAndDataPointCount_ilms h ilms j (mc, dc)
     = Inr (mc + word_of_nat (\<Sum>ilm\<leftarrow>drop j ilms. length (ilm_Metrics ilm)),
            dc + word_of_nat (\<Sum>ilm\<leftarrow>drop j ilms. \<Sum>m\<leftarrow>ilm_Metrics ilm. active_points h m))"
proof (induction h ilms j "(mc, dc)" arbitrary: mc dc rule: MetricAndDataPointCount_ilms.induct)
  case (1 h ilms j)
  let ?ms = "ilm_Metrics (ilms ! j)"
  show ?case
  proof (cases "j < length ilms")
    case True
    then have d: "drop j ilms = ilms ! j # drop (Suc j) ilms"
      by (simp add: Cons_nth_drop_Suc)
    have "ilms ! j \<in> set ilms"
      using True by simp
    then have alloc: "\<forall>m \<in> set ?ms. storage_allocated h m"
      using "1.prems" by blast
    have inner: "MetricAndDataPointCount_ms h ?ms 0 dc
                   = Inr (dc + word_of_nat (\<Sum>m\<leftarrow>?ms. active_points h m))"
      using MetricAndDataPointCount_ms_eq [OF _ alloc, of 0 dc] by simp
    have "MetricAndDataPointCount_ilms h ilms (j + 1)
            (mc + word_of_nat (Len ?ms), dc + word_of_nat (\<Sum>m\<leftarrow>?ms. active_points h m))
          = Inr (mc + word_of_nat (Len ?ms)
                   + word_of_nat (\<Sum>ilm\<leftarrow>drop (j + 1) ilms. length (ilm_Metrics ilm)),
                 dc + word_of_nat (\<Sum>m\<leftarrow>?ms. active_points h m)
                   + word_of_nat
                       (\<Sum>ilm\<leftarrow>drop (j + 1) ilms. \<Sum>m\<leftarrow>ilm_Metrics ilm. active_points h m))"
      using True inner "1.prems"
      by (intro "1.hyps") (simp_all add: Len_def At_def)
    then show ?thesis
      using True inner
      by (subst MetricAndDataPointCount_ilms.simps)
         (simp add: Len_def At_def d Let_def add.assoc)
  next
    case False
    with "1.prems" have "j = length ilms" by simp
    then show ?thesis
      by (subst MetricAndDataPointCount_ilms.simps) (simp add: Len_def)
  qed
qed

lemma MetricAndDataPointCount_rms_eq:
  "i \<le> length rms \<Longrightarrow>
   \<forall>rm \<in> set rms. \<forall>ilm \<in> set (rm_InstrumentationLibraryMetrics rm).
      \<forall>m \<in> set (ilm_Metrics ilm). storage_allocated h m \<Longrightarrow>
   MetricAndDataPointCount_rms h rms i (mc, dc)
     = Inr (mc + word_of_nat
                   (\<Sum>rm\<leftarrow>drop i rms.
                      \<Sum>ilm\<leftarrow>rm_InstrumentationLibraryMetrics rm. length (ilm_Metrics ilm)),
            dc + word_of_nat
                   (\<Sum>rm\<leftarrow>drop i rms. \<Sum>ilm\<leftarrow>rm_InstrumentationLibraryMetrics rm.
                      \<Sum>m\<leftarrow>ilm_Metrics ilm. active_points h m))"
proof (induction h rms i "(mc, dc)" arbitrary: mc dc rule: MetricAndDataPointCount_rms.induct)
  case (1 h rms i)
  let ?ilms = "rm_InstrumentationLibraryMetrics (rms ! i)"
  let ?n = "\<Sum>ilm\<leftarrow>?ilms. length (ilm_Metrics ilm)"
  let ?p = "\<Sum>ilm\<leftarrow>?ilms. \<Sum>m\<leftarrow>ilm_Metrics ilm. active_points h m"
  show ?case
  proof (cases "i < length rms")
    case True
    then have d: "drop i rms = rms ! i # drop (Suc i) rms"
      by (simp add: Cons_nth_drop_Suc)
    have "rms ! i \<in> set rms"
      using True by simp
    then have alloc: "\<forall>ilm \<in> set ?ilms. \<forall>m \<in> set (ilm_Metrics ilm). storage_allocated h m"
      using "1.prems" by blast
    have inner: "MetricAndDataPointCount_ilms h ?ilms 0 (mc, dc)
                   = Inr (mc + word_of_nat ?n, dc + word_of_nat ?p)"
      using MetricAndDataPointCount_ilms_eq [OF _ alloc, of 0 mc dc] by simp
    have "MetricAndDataPointCount_rms h rms (i + 1) (mc + word_of_nat ?n, dc + word_of_nat ?p)
          = Inr (mc + word_of_nat ?n
                   + word_of_nat
                       (\<Sum>rm\<leftarrow>drop (i + 1) rms.
                          \<Sum>ilm\<leftarrow>rm_InstrumentationLibraryMetrics rm. length (ilm_Metrics ilm)),
                 dc + word_of_nat ?p
                   + word_of_nat
                       (\<Sum>rm\<leftarrow>drop (i + 1) rms. \<Sum>ilm\<leftarrow>rm_InstrumentationLibraryMetrics rm.
                          \<Sum>m\<leftarrow>ilm_Metrics ilm. active_points h m))"
      using True inner "1.prems"
      by (intro "1.hyps") (simp_all add: Len_def At_def)
    then show ?thesis
      using True inner
      by (subst MetricAndDataPointCount_rms.simps) (simp add: Len_def At_def d add.assoc)
  next
    case False
    with "1.prems" have "i = length rms" by simp
    then show ?thesis
      by (subst MetricAndDataPointCount_rms.simps) (simp add: Len_def)
  qed
qed

lemma MetricAndDataPointCount_word:
  assumes "orig md = Some req"
    and "\<forall>rm \<in> set (ResourceMetrics req).
           \<forall>ilm \<in> set (rm_InstrumentationLibraryMetrics rm).
             \<forall>m \<in> set (ilm_Metrics ilm). storage_allocated h m"
  shows "MetricAndDataPointCount h md
           = Inr (word_of_nat (metric_total req), word_of_nat (point_total h req))"
  using assms(1) MetricAndDataPointCount_rms_eq [OF _ assms(2), of 0 0 0]
  by (simp add: MetricAndDataPointCount_def Metrics_ResourceMetrics_def metric_total_def
        point_total_def)

lemma point_total_cube: "point_total h (cube_request n m) = n * n * n * active_points h m"
  by (simp add: point_total_def cube_request_def map_replicate_const sum_list_replicate
        mult.assoc)

text \<open>
  C6, as the claim states it, does not hold for every \<^verbatim>\<open>Metrics\<close> value. On the zero
  value \<^verbatim>\<open>Metrics{}\<close> the call panics in \<^verbatim>\<open>md.ResourceMetrics()\<close> and returns no counts.
  On a tree with a metric whose wrapper holds a nil message pointer, a metric of data type
  \<^verbatim>\<open>MetricDataTypeIntGauge\<close>, it panics when it reads the points behind the nil pointer.
  On a tree of \<open>2 ^ 16\<close> resources, each with \<open>2 ^ 16\<close> scopes, each with \<open>2 ^ 16\<close> metrics
  that share a gauge of \<open>2 ^ 15\<close> points, the sum of the points is \<open>2 ^ 63\<close>, and a 64-bit
  \<^verbatim>\<open>int\<close> counter has wrapped around to \<open>- (2 ^ 63)\<close>.
\<close>

theorem MetricAndDataPointCount_counterexample:
  "(MetricAndDataPointCount example_store (Metrics None) :: panic + 64 word \<times> 64 word)
     = Inl NilPointerDereference \<and>
   DataType (Metric (Some nil_gauge_metric)) = Inr MetricDataTypeIntGauge \<and>
   (MetricAndDataPointCount example_store (Metrics (Some (single_request nil_gauge_metric)))
      :: panic + 64 word \<times> 64 word)
     = Inl NilPointerDereference \<and>
   point_total [otlp_IntGauge (replicate (2 ^ 15) (0::nat))]
     (cube_request (2 ^ 16) gauge_metric) = 2 ^ 63 \<and>
   (MetricAndDataPointCount [otlp_IntGauge (replicate (2 ^ 15) (0::nat))]
      (Metrics (Some (cube_request (2 ^ 16) gauge_metric))) :: panic + 64 word \<times> 64 word)
     = Inr (2 ^ 48, 2 ^ 63) \<and>
   sint (2 ^ 63 :: 64 word) = - (2 ^ 63)"
proof -
  let ?h = "[otlp_IntGauge (replicate (2 ^ 15) (0::nat))]"
  let ?req = "cube_request (2 ^ 16) gauge_metric"
  have "(MetricAndDataPointCount example_store (Metrics None) :: panic + 64 word \<times> 64 word)
          = Inl NilPointerDereference"
    by (simp add: MetricAndDataPointCount_def Metrics_ResourceMetrics_def)
  moreover have "DataType (Metric (Some nil_gauge_metric)) = Inr MetricDataTypeIntGauge"
    by (simp add: DataType_def nil_gauge_metric_def)
  moreover have
    "(MetricAndDataPointCount example_store (Metrics (Some (single_request nil_gauge_metric)))
        :: panic + 64 word \<times> 64 word) = Inl NilPointerDereference"
    by (simp add: MetricAndDataPointCount_def Metrics_ResourceMetrics_def single_request_def
          MetricAndDataPointCount_rms.simps [of _ _ 0] MetricAndDataPointCount_ilms.simps [of _ _ 0]
          MetricAndDataPointCount_ms.simps [of _ _ 0] Len_def At_def Let_def
          dataPointCount_switch_def DataType_def IntGauge_def DataPoints_Len_def
          store_load_def nil_gauge_metric_def MetricDataType_defs)
  moreover have
    "(MetricAndDataPointCount ?h (Metrics (Some ?req)) :: panic + 64 word \<times> 64 word)
       = Inr (2 ^ 48, 2 ^ 63)
     \<and> point_total ?h ?req = 2 ^ 63"
  proof -
    have ap: "active_points ?h gauge_metric = 2 ^ 15"
      by (simp add: active_points_def gauge_metric_def variant_ptr_def)
    have mt: "metric_total ?req = 2 ^ 48"
      by (simp add: metric_total_cube)
    have pt: "point_total ?h ?req = 2 ^ 63"
      unfolding point_total_cube ap by simp
    have o: "orig (Metrics (Some ?req)) = Some ?req"
      by simp
    have alloc: "\<forall>rm \<in> set (ResourceMetrics ?req).
             \<forall>ilm \<in> set (rm_InstrumentationLibraryMetrics rm).
               \<forall>m \<in> set (ilm_Metrics ilm). storage_allocated ?h m"
      by (simp add: cube_request_def storage_allocated_def gauge_metric_def variant_ptr_def)
    have "(MetricAndDataPointCount ?h (Metrics (Some ?req)) :: panic + 64 word \<times> 64 word)
            = Inr (2 ^ 48, 2 ^ 63)"
      unfolding MetricAndDataPointCount_word [OF o alloc] mt pt by simp
    with pt show ?thesis
      by simp
  qed
  moreover have "sint (2 ^ 63 :: 64 word) = - (2 ^ 63)"
    by simp
  ultimately show ?thesis
    by simp
qed

text \<open>
  C6, amended. For every \<^verbatim>\<open>Metrics\<close> value that holds a record tree (\<^verbatim>\<open>orig\<close> is not nil)
  and whose variant wrappers hold message pointers that are not nil,
  \<^verbatim>\<open>MetricAndDataPointCount()\<close> returns a metric count equal to the result of
  \<^verbatim>\<open>MetricCount()\<close> and a data-point count equal to the sum, over every metric of the tree,
  of the length of the data-point collection of the metric's active variant, both reduced
  to the width \<open>w\<close> of Go's \<^verbatim>\<open>int\<close>; a count whose sum is below \<open>2 ^ (w - 1)\<close> is the sum
  itself. A metric whose \<^verbatim>\<open>Data\<close> is nil, that is whose data type is
  \<^verbatim>\<open>MetricDataTypeNone\<close>, contributes 0.
\<close>

theorem MetricAndDataPointCount_sums:
  assumes "orig md = Some req"
    and "\<forall>rm \<in> set (ResourceMetrics req).
           \<forall>ilm \<in> set (rm_InstrumentationLibraryMetrics rm).
             \<forall>m \<in> set (ilm_Metrics ilm). storage_allocated h m"
  shows "MetricAndDataPointCount h md
           = Inr (word_of_nat (metric_total req) :: 'i::len word,
                  word_of_nat (point_total h req)) \<and>
         MetricCount md = Inr (word_of_nat (metric_total req) :: 'i word) \<and>
         (metric_total req < 2 ^ (LENGTH('i) - 1) \<longrightarrow>
            sint (word_of_nat (metric_total req) :: 'i word) = int (metric_total req)) \<and>
         (point_total h req < 2 ^ (LENGTH('i) - 1) \<longrightarrow>
            sint (word_of_nat (point_total h req) :: 'i word) = int (point_total h req)) \<and>
         (Data m = None \<longrightarrow>
            active_points h m = 0 \<and> DataType (Metric (Some m)) = Inr MetricDataTypeNone)"
  using assms
  by (simp add: MetricAndDataPointCount_word MetricCount_word sint_word_of_nat
        active_points_def DataType_def)

theorem MetricAndDataPointCount_sums_witness:
  "(MetricCount scenario_metrics :: panic + 64 word) = Inr 1 \<and>
   (MetricAndDataPointCount example_store scenario_metrics :: panic + 64 word \<times> 64 word)
     = Inr (1, 3) \<and>
   (MetricCount (Metrics (Some grid_request)) :: panic + 64 word) = Inr 4 \<and>
   (MetricAndDataPointCount example_store (Metrics (Some grid_request))
      :: panic + 64 word \<times> 64 word) = Inr (4, 7) \<and>
   sint (4 :: 64 word) = 4 \<and> sint (7 :: 64 word) = 7 \<and>
   active_points example_store untyped_metric = 0"
proof -
  let ?req = "\<lparr>ResourceMetrics =
       [\<lparr>rm_InstrumentationLibraryMetrics = [\<lparr>ilm_Metrics = [sum_metric]\<rparr>]\<rparr>]\<rparr>"
  have a: "orig scenario_metrics = Some ?req"
    by (simp add: scenario_metrics_def)
  have b: "\<forall>rm \<in> set (ResourceMetrics ?req).
           \<forall>ilm \<in> set (rm_InstrumentationLibraryMetrics rm).
             \<forall>m \<in> set (ilm_Metrics ilm). storage_allocated example_store m"
    by (simp add: storage_allocated_def sum_metric_def variant_ptr_def example_store_def)
  have c: "orig (Metrics (Some grid_request)) = Some grid_request"
    by simp
  have d: "\<forall>rm \<in> set (ResourceMetrics grid_request).
           \<forall>ilm \<in> set (rm_InstrumentationLibraryMetrics rm).
             \<forall>m \<in> set (ilm_Metrics ilm). storage_allocated example_store m"
    by (simp add: grid_request_def storage_allocated_def sum_metric_def gauge_metric_def
          untyped_metric_def variant_ptr_def example_store_def)
  have e: "Data untyped_metric = None"
    by (simp add: untyped_metric_def)
  show ?thesis
    using MetricAndDataPointCount_sums [OF a b, of untyped_metric, where ?'i = 64]
      MetricAndDataPointCount_sums [OF c d, of untyped_metric, where ?'i = 64] e
    by (simp add: grid_request_def metric_total_def point_total_def active_points_def
          sum_metric_def gauge_metric_def variant_ptr_def example_store_def)
qed

end
